theory Spec2Isabelle
  imports Main "HOL-Library.Char_ord" "HOL-Library.List_Lexorder" "HOL-Library.Sublist"
begin

section \<open>The regular expressions of \<open>group_fastqs\<close>\<close>

text \<open>
  \<open>slurm_fastq_submit.py\<close> compiles two patterns (lines 53 and 54):
  \<^verbatim>\<open>fastq_regex = re.compile(r'^(.+)\.(fastq|fq)(\.gz|\.bz2)?$')\<close> and
  \<^verbatim>\<open>illumina_regex = re.compile(r'_S.+_L\d*1_R\d+_001')\<close>.
  A pattern is a sequence of items, matched by backtracking in the order Python's
  \<open>re\<close> tries them: the alternatives of a group from left to right, a greedy
  quantifier from the longest repetition down. Strings are lists of 8-bit characters;
  among them \<open>\d\<close> matches the ten ASCII digits only, and \<open>.\<close> (no DOTALL flag)
  matches every character but the line feed.
\<close>

datatype cls = Dot | Digit

fun in_cls :: "cls \<Rightarrow> char \<Rightarrow> bool" where
  "in_cls Dot c = (c \<noteq> CHR 0x0A)"
| "in_cls Digit c = (c \<in> set ''0123456789'')"

text \<open>
  \<open>Bol\<close> is \<open>^\<close>, \<open>Eol\<close> is \<open>$\<close>, \<open>Alt ls\<close> a group of literal
  alternatives (a literal is the group of one alternative, and \<open>(...)?\<close> has the
  empty string as its last alternative), \<open>Star c\<close> is \<open>c*\<close> and \<open>Plus c\<close> is
  \<open>c+\<close>.
\<close>

datatype item = Bol | Eol | Alt "string list" | Star cls | Plus cls

definition took :: "string \<Rightarrow> (string list \<times> string) option \<Rightarrow> (string list \<times> string) option" where
  "took g res = (case res of None \<Rightarrow> None | Some (gs, rest) \<Rightarrow> Some (g # gs, rest))"

text \<open>
  \<open>match_here r bos s\<close> matches the items \<open>r\<close> at the front of \<open>s\<close>;
  \<open>bos\<close> says whether the front of \<open>s\<close> is the beginning of the whole string.
  The result is the first match in backtracking order: the text each item consumed,
  and the rest of the string after the match.
\<close>

fun weight :: "item \<Rightarrow> nat" where
  "weight (Alt ls) = Suc (length ls)"
| "weight i = 1"

function (sequential) match_here :: "item list \<Rightarrow> bool \<Rightarrow> string \<Rightarrow> (string list \<times> string) option" where
  "match_here [] bos s = Some ([], s)"
| "match_here (Bol # r) bos s = (if bos then took [] (match_here r bos s) else None)"
| "match_here (Eol # r) bos s =
     (if s = [] \<or> s = [CHR 0x0A] then took [] (match_here r bos s) else None)"
| "match_here (Alt [] # r) bos s = None"
| "match_here (Alt (l # ls) # r) bos s =
     (case (if prefix l s then match_here r (bos \<and> l = []) (drop (length l) s) else None) of
        Some (gs, rest) \<Rightarrow> Some (l # gs, rest)
      | None \<Rightarrow> match_here (Alt ls # r) bos s)"
| "match_here (Star c # r) bos [] = took [] (match_here r bos [])"
| "match_here (Star c # r) bos (x # xs) =
     (case (if in_cls c x then match_here (Star c # r) False xs else None) of
        Some (gs, rest) \<Rightarrow> Some ((x # hd gs) # tl gs, rest)
      | None \<Rightarrow> took [] (match_here r bos (x # xs)))"
| "match_here (Plus c # r) bos [] = None"
| "match_here (Plus c # r) bos (x # xs) =
     (if in_cls c x
      then (case match_here (Star c # r) False xs of
              Some (gs, rest) \<Rightarrow> Some ((x # hd gs) # tl gs, rest)
            | None \<Rightarrow> None)
      else None)"
  by pat_completeness auto
termination
  by (relation "measures [\<lambda>(r, bos, s). sum_list (map weight r), \<lambda>(r, bos, s). length s]") auto

text \<open>
  \<open>re_sub r repl bos s\<close> is \<open>re.sub\<close> (Python 3.7 and later): the string is
  scanned from the left; where the pattern matches, the replacement (a function of the
  texts the items consumed) is written and the scan goes on after the match; where it
  does not, the character is copied. After an empty match the character is copied too.
\<close>

fun re_sub :: "item list \<Rightarrow> (string list \<Rightarrow> string) \<Rightarrow> bool \<Rightarrow> string \<Rightarrow> string" where
  "re_sub r repl bos [] =
     (case match_here r bos [] of Some (gs, rest) \<Rightarrow> repl gs | None \<Rightarrow> [])"
| "re_sub r repl bos (x # xs) =
     (case match_here r bos (x # xs) of
        Some (gs, rest) \<Rightarrow>
          if length rest < length (x # xs) then repl gs @ re_sub r repl False rest
          else repl gs @ x # re_sub r repl False xs
      | None \<Rightarrow> x # re_sub r repl False xs)"

definition fastq_regex :: "item list" where
  "fastq_regex =
     [Bol, Plus Dot, Alt [''.''], Alt [''fastq'', ''fq''], Alt [''.gz'', ''.bz2'', ''''], Eol]"

definition illumina_regex :: "item list" where
  "illumina_regex =
     [Alt [''_S''], Plus Dot, Alt [''_L''], Star Digit, Alt [''1_R''], Plus Digit, Alt [''_001'']]"

text \<open>
  \<open>fastq_regex.sub(r'\1', s)\<close>: the replacement is group 1, the text of \<open>(.+)\<close>,
  which is item 1 of the pattern. \<open>re.sub(pattern=illumina_regex, repl='', string=s)\<close>
  replaces by the empty string.
\<close>

definition fastq_sub :: "string \<Rightarrow> string" where
  "fastq_sub s = re_sub fastq_regex (\<lambda>gs. gs ! 1) True s"

definition illumina_sub :: "string \<Rightarrow> string" where
  "illumina_sub s = re_sub illumina_regex (\<lambda>gs. []) True s"

section \<open>Paths\<close>

text \<open>
  A \<open>pathlib.Path\<close> (POSIX flavour) is the list of its \<open>parts\<close>; an absolute path
  has the root \<open>/\<close> as its first part, and the path \<open>.\<close> has no part.
\<close>

type_synonym path = "string list"

definition is_absolute :: "path \<Rightarrow> bool" where
  "is_absolute p = (case p of [] \<Rightarrow> False | r # _ \<Rightarrow> r = ''/'')"

fun sep_join :: "string list \<Rightarrow> string" where
  "sep_join [] = []"
| "sep_join [a] = a"
| "sep_join (a # b # cs) = a @ ''/'' @ sep_join (b # cs)"

definition path_str :: "path \<Rightarrow> string" where
  "path_str p =
     (case p of [] \<Rightarrow> ''.''
      | r # ps \<Rightarrow> if r = ''/'' then ''/'' @ sep_join ps else sep_join (r # ps))"

definition path_name :: "path \<Rightarrow> string" where
  "path_name p = (if p = [] \<or> p = [''/''] then [] else last p)"

fun rfind :: "char \<Rightarrow> string \<Rightarrow> nat option" where
  "rfind c [] = None"
| "rfind c (x # xs) =
     (case rfind c xs of
        Some i \<Rightarrow> Some (Suc i)
      | None \<Rightarrow> if x = c then Some 0 else None)"

text \<open>
  \<open>Path.stem\<close>: the name without its last suffix. The suffix starts at the last dot
  of the name, when that dot is neither the first nor the last character.
\<close>

definition stem :: "path \<Rightarrow> string" where
  "stem p =
     (let n = path_name p in
      case rfind (CHR ''.'') n of
        None \<Rightarrow> n
      | Some i \<Rightarrow> if 0 < i \<and> i < length n - 1 then take i n else n)"

section \<open>Grouping: \<open>group_fastqs\<close>\<close>

text \<open>Lines 62 to 64: the sample name of one FASTQ path.\<close>

definition genome_name :: "path \<Rightarrow> string" where
  "genome_name fastq = illumina_sub (fastq_sub (stem fastq))"

text \<open>
  A Python \<open>dict\<close> keeps its keys in the order of their first insertion: an association
  list with one pair for each key.
\<close>

fun dict_set :: "('k \<times> 'v) list \<Rightarrow> 'k \<Rightarrow> 'v \<Rightarrow> ('k \<times> 'v) list" where
  "dict_set [] k v = [(k, v)]"
| "dict_set ((k', v') # d) k v =
     (if k' = k then (k, v) # d else (k', v') # dict_set d k v)"

definition dict_get_list :: "('k \<times> 'v list) list \<Rightarrow> 'k \<Rightarrow> 'v list" where
  "dict_get_list d k = (case map_of d k of None \<Rightarrow> [] | Some v \<Rightarrow> v)"

text \<open>
  Lines 56 to 66: \<open>genome_fastqs[genome_name].append(fastq)\<close> on a
  \<open>defaultdict(list)\<close>, for each path in turn.
\<close>

fun genome_fastqs_loop :: "(string \<times> path list) list \<Rightarrow> path list \<Rightarrow> (string \<times> path list) list" where
  "genome_fastqs_loop d [] = d"
| "genome_fastqs_loop d (fastq # fastqs) =
     genome_fastqs_loop
       (dict_set d (genome_name fastq) (dict_get_list d (genome_name fastq) @ [fastq])) fastqs"

definition genome_fastqs :: "path list \<Rightarrow> (string \<times> path list) list" where
  "genome_fastqs fastqs = genome_fastqs_loop [] fastqs"

datatype error =
    ValueError string
  | KeyError string
  | IndexError string
  | FileNotFoundError path
  | IsADirectoryError path
  | NotADirectoryError path
  | PermissionError path
  | NotModelled

record mates =
  fwd :: path
  rev' :: path

function str_nat :: "nat \<Rightarrow> string" where
  "str_nat n =
     (if n < 10 then [''0123456789'' ! n]
      else str_nat (n div 10) @ [''0123456789'' ! (n mod 10)])"
  by pat_completeness auto
termination
  by (relation "measure (\<lambda>n. n)") auto

declare str_nat.simps [simp del]

text \<open>
  Lines 68 to 72: \<open>fwd, rev, *_ = sorted(paths)\<close> raises \<open>ValueError\<close> when the
  sorted list has fewer than two elements. Paths are ordered as their lists of parts.
\<close>

fun fwd_rev_loop :: "(string \<times> mates) list \<Rightarrow> (string \<times> path list) list \<Rightarrow> error + (string \<times> mates) list" where
  "fwd_rev_loop acc [] = Inr acc"
| "fwd_rev_loop acc ((name, paths) # items) =
     (case sort paths of
        f # r # _ \<Rightarrow> fwd_rev_loop (dict_set acc name \<lparr>fwd = f, rev' = r\<rparr>) items
      | short \<Rightarrow>
          Inl (ValueError (''not enough values to unpack (expected at least 2, got ''
                 @ str_nat (length short) @ '')'')))"

definition fwd_rev :: "(string \<times> path list) list \<Rightarrow> error + (string \<times> mates) list" where
  "fwd_rev groups = fwd_rev_loop [] groups"

section \<open>The file system and the terminal\<close>

text \<open>
  What the script reads and changes outside itself: the working directory, the regular
  files (their text, by absolute path), the directories (by absolute path, each with
  the names of its entries in the order \<open>os.scandir\<close> lists them, and whether the
  process may list it and may create entries in it), and the lines printed so far.
  A path is looked up as \<open>Path.absolute\<close> makes it: no \<open>..\<close> and no symbolic link
  is resolved. Regular files of the model can be read and overwritten.
\<close>

record dir =
  entries :: "string list"
  readable :: bool
  writable :: bool

record world =
  cwd :: path
  files :: "path \<rightharpoonup> string"
  dirs :: "path \<rightharpoonup> dir"
  stdout :: "string list"

definition absolute :: "path \<Rightarrow> world \<Rightarrow> path" where
  "absolute p w = (if is_absolute p then p else cwd w @ p)"

definition print_line :: "string \<Rightarrow> world \<Rightarrow> world" where
  "print_line l w = w\<lparr>stdout := stdout w @ [l]\<rparr>"

text \<open>
  \<open>Path.read_text\<close> and \<open>Path.write_text\<close>. Writing creates the file or replaces
  its text; the directory that holds it must exist.
\<close>

definition read_text :: "path \<Rightarrow> world \<Rightarrow> error + string" where
  "read_text p w =
     (if dirs w (absolute p w) \<noteq> None then Inl (IsADirectoryError p)
      else case files w (absolute p w) of
             None \<Rightarrow> Inl (FileNotFoundError p)
           | Some s \<Rightarrow> Inr s)"

definition add_entry :: "string \<Rightarrow> dir \<Rightarrow> dir" where
  "add_entry n d = (if n \<in> set (entries d) then d else d\<lparr>entries := entries d @ [n]\<rparr>)"

definition write_text :: "path \<Rightarrow> string \<Rightarrow> world \<Rightarrow> (error + unit) \<times> world" where
  "write_text p s w =
     (let a = absolute p w in
      if dirs w a \<noteq> None then (Inl (IsADirectoryError p), w)
      else if files w (butlast a) \<noteq> None then (Inl (NotADirectoryError p), w)
      else case dirs w (butlast a) of
             None \<Rightarrow> (Inl (FileNotFoundError p), w)
           | Some d \<Rightarrow>
               if files w a = None \<and> \<not> writable d then (Inl (PermissionError p), w)
               else (Inr (),
                     w\<lparr>files := (files w)(a \<mapsto> s),
                       dirs := (dirs w)(butlast a \<mapsto> add_entry (last a) d)\<rparr>))"

section \<open>Discovery: \<open>get_fastq_paths\<close>\<close>

text \<open>
  Lines 81 to 83: the six patterns, in the order of \<open>itertools.product\<close>.
\<close>

definition extensions :: "string list" where
  "extensions =
     map (\<lambda>(a, b). ''*'' @ a @ b) (List.product [''.fq'', ''.fastq''] ['''', ''.gz'', ''.bz2''])"

text \<open>
  \<open>fnmatch name pat\<close>: the whole name matches the pattern, where \<open>*\<close> stands for
  any run of characters (a leading dot included: \<open>pathlib\<close> does not hide dot files)
  and every other character for itself, upper and lower case apart (POSIX). The six
  patterns have no \<open>?\<close> and no \<open>[\<close>.
\<close>

fun fnmatch :: "string \<Rightarrow> string \<Rightarrow> bool" where
  "fnmatch n [] = (n = [])"
| "fnmatch n (p # ps) =
     (if p = CHR ''*'' then list_ex (\<lambda>k. fnmatch (drop k n) ps) [0..<Suc (length n)]
      else (case n of [] \<Rightarrow> False | c # cs \<Rightarrow> c = p \<and> fnmatch cs ps))"

text \<open>
  The names \<open>os.scandir\<close> gives for a directory. \<open>Path.glob\<close> yields nothing for a
  path that is not a directory, and swallows the error of a directory it may not list.
\<close>

definition scandir :: "path \<Rightarrow> world \<Rightarrow> string list" where
  "scandir d w =
     (case dirs w (absolute d w) of
        None \<Rightarrow> []
      | Some dr \<Rightarrow> if readable dr then entries dr else [])"

text \<open>
  \<open>directory.glob(ext)\<close> for a pattern of one part: the entries of the directory
  itself whose names match, each as the directory's path with the name added. The type
  of an entry is not looked at.
\<close>

definition glob :: "path \<Rightarrow> string \<Rightarrow> world \<Rightarrow> path list" where
  "glob directory ext w =
     map (\<lambda>n. directory @ [n]) (filter (\<lambda>n. fnmatch n ext) (scandir directory w))"

definition get_fastq_paths :: "path \<Rightarrow> world \<Rightarrow> path list \<times> world" where
  "get_fastq_paths directory w =
     (let globs = map (\<lambda>ext. glob directory ext w) extensions;
          fastq_paths = map (\<lambda>p. absolute p w) (concat globs)
      in (fastq_paths,
          print_line (''Found '' @ str_nat (length fastq_paths) @ '' fastqs in ''
                        @ path_str directory) w))"

text \<open>Lines 39 to 76: \<open>group_fastqs\<close>, with the line it prints before it returns.\<close>

definition group_fastqs :: "path list \<Rightarrow> world \<Rightarrow> (error + (string \<times> mates) list) \<times> world" where
  "group_fastqs fastqs w =
     (case fwd_rev (genome_fastqs fastqs) of
        Inl e \<Rightarrow> (Inl e, w)
      | Inr fr \<Rightarrow>
          (Inr fr,
           print_line (''Grouped '' @ str_nat (length fastqs) @ '' FASTQs into ''
                         @ str_nat (length fr) @ '' samples'') w))"

section \<open>Emission: \<open>str.format\<close> and the loop of \<open>main\<close>\<close>

text \<open>
  The values the script passes to \<open>job_tmpl.format\<close> are a string (the sample
  name), paths, and \<open>None\<close> for an option that argparse did not see (lines 26 to 34:
  \<open>required=False\<close>, no default). A replacement field with no format
  specification writes \<open>str\<close> of its value.
\<close>

datatype pyval = Str string | PathVal path | NoneVal

fun py_str :: "pyval \<Rightarrow> string" where
  "py_str (Str s) = s"
| "py_str (PathVal p) = path_str p"
| "py_str NoneVal = ''None''"

text \<open>
  The field name after an opening brace, up to its closing brace. A conversion
  (\<open>!\<close>), a format specification (\<open>:\<close>) and an index (\<open>[\<close>) are outside the
  model: the result \<open>NotModelled\<close> stands for whatever Python does with them.
\<close>

fun parse_field :: "string \<Rightarrow> string \<Rightarrow> error + (string \<times> string)" where
  "parse_field acc [] = Inl (ValueError ''expected '}' before end of string'')"
| "parse_field acc (c # cs) =
     (if c = CHR ''{'' then Inl (ValueError ''unexpected '{' in field name'')
      else if c = CHR ''}'' then Inr (acc, cs)
      else if c = CHR ''['' \<or> c = CHR '':'' \<or> c = CHR ''!'' then Inl NotModelled
      else parse_field (acc @ [c]) cs)"

definition dec_value :: "string \<Rightarrow> nat" where
  "dec_value ds = foldl (\<lambda>a d. a * 10 + (of_char d - 48)) 0 ds"

text \<open>
  The value of a field: an empty or all-digit name is an index into the positional
  arguments, of which \<open>format\<close> is given none here; any other name is a key of the
  keyword arguments. Attribute access (\<open>.\<close>) is outside the model.
  \<open>PY_SSIZE_T_MAX\<close> is \<open>2^63 - 1\<close> (a 64-bit build).
\<close>

definition get_field :: "string \<Rightarrow> (string \<times> pyval) list \<Rightarrow> error + pyval" where
  "get_field fname kwargs =
     (if CHR ''.'' \<in> set fname then Inl NotModelled
      else if fname = [] then
        Inl (IndexError ''Replacement index 0 out of range for positional args tuple'')
      else if list_all (in_cls Digit) fname then
        (if dec_value fname > 2 ^ 63 - 1
         then Inl (ValueError ''Too many decimal digits in format string'')
         else Inl (IndexError (''Replacement index '' @ str_nat (dec_value fname)
                     @ '' out of range for positional args tuple'')))
      else case map_of kwargs fname of
             None \<Rightarrow> Inl (KeyError fname)
           | Some v \<Rightarrow> Inr v)"

definition emit :: "string \<Rightarrow> error + string \<Rightarrow> error + string" where
  "emit s res = (case res of Inl e \<Rightarrow> Inl e | Inr t \<Rightarrow> Inr (s @ t))"

lemma parse_field_shorter:
  "parse_field acc cs = Inr (fname, rest) \<Longrightarrow> length rest < length cs"
  by (induction acc cs rule: parse_field.induct) (auto split: if_splits)

text \<open>
  \<open>template.format(**kwargs)\<close>: the template is read from the left; a doubled
  brace is one literal brace, a single opening brace starts a replacement field, and
  the first error met is the one raised.
\<close>

function py_format :: "string \<Rightarrow> (string \<times> pyval) list \<Rightarrow> error + string" where
  "py_format [] kwargs = Inr []"
| "py_format (c # cs) kwargs =
     (if c = CHR ''}'' then
        (case cs of
           [] \<Rightarrow> Inl (ValueError ''Single '}' encountered in format string'')
         | d # ds \<Rightarrow>
             if d = CHR ''}'' then emit ''}'' (py_format ds kwargs)
             else Inl (ValueError ''Single '}' encountered in format string''))
      else if c = CHR ''{'' then
        (case cs of
           [] \<Rightarrow> Inl (ValueError ''Single '{' encountered in format string'')
         | d # ds \<Rightarrow>
             if d = CHR ''{'' then emit ''{'' (py_format ds kwargs)
             else (case parse_field [] cs of
                     Inl e \<Rightarrow> Inl e
                   | Inr (fname, rest) \<Rightarrow>
                       (case get_field fname kwargs of
                          Inl e \<Rightarrow> Inl e
                        | Inr v \<Rightarrow> emit (py_str v) (py_format rest kwargs))))
      else emit [c] (py_format cs kwargs))"
  by pat_completeness auto
termination
  by (relation "measure (\<lambda>(t, kwargs). length t)")
    (auto dest!: parse_field_shorter simp del: parse_field.simps)

text \<open>
  The namespace that \<open>arguments()\<close> returns (lines 10 to 36); \<open>output'\<close> is its
  attribute \<open>output\<close>.
\<close>

record args =
  template :: path
  fastqs :: path
  jobs :: path
  output' :: "path option"
  reference :: "path option"

definition opt_path :: "path option \<Rightarrow> pyval" where
  "opt_path p = (case p of None \<Rightarrow> NoneVal | Some q \<Rightarrow> PathVal q)"

text \<open>
  \<open>args.jobs / name\<close>: the parts of \<open>name\<close> (split at \<open>/\<close>, empty parts and
  \<open>.\<close> dropped) are added to the path; a \<open>name\<close> that starts with \<open>/\<close> replaces
  the path.
\<close>

fun split_sep :: "string \<Rightarrow> string list" where
  "split_sep [] = [[]]"
| "split_sep (c # cs) =
     (if c = CHR ''/'' then [] # split_sep cs
      else (case split_sep cs of [] \<Rightarrow> [[c]] | p # ps \<Rightarrow> (c # p) # ps))"

definition path_join :: "path \<Rightarrow> string \<Rightarrow> path" where
  "path_join p s =
     (let parts = filter (\<lambda>q. q \<noteq> [] \<and> q \<noteq> ''.'') (split_sep s)
      in if prefix ''/'' s then ''/'' # parts else p @ parts)"

text \<open>Lines 110 to 114: the keyword arguments of \<open>job_tmpl.format\<close>.\<close>

definition format_kwargs :: "args \<Rightarrow> string \<Rightarrow> mates \<Rightarrow> (string \<times> pyval) list" where
  "format_kwargs a sample_name paths =
     [(''genome'', Str sample_name),
      (''output'', opt_path (output' a)),
      (''reference'', opt_path (reference a)),
      (''fwd'', PathVal (fwd paths)),
      (''rev'', PathVal (rev' paths))]"

text \<open>Lines 108 to 121: the body of the loop, for one sample.\<close>

definition write_job :: "args \<Rightarrow> string \<Rightarrow> string \<Rightarrow> mates \<Rightarrow> world \<Rightarrow> (error + unit) \<times> world" where
  "write_job a job_tmpl sample_name paths w =
     (let job_filepath = path_join (jobs a) (''slurm-'' @ sample_name @ ''.job'') in
      case py_format job_tmpl (format_kwargs a sample_name paths) of
        Inl e \<Rightarrow> (Inl e, w)
      | Inr job \<Rightarrow>
          (case write_text job_filepath job w of
             (Inl e, w') \<Rightarrow> (Inl e, w')
           | (Inr u, w') \<Rightarrow>
               (Inr (),
                print_line (''Wrote '' @ path_str job_filepath @ '' for sample '' @ sample_name
                              @ '' with inputs '' @ path_str (fwd paths) @ '' ''
                              @ path_str (rev' paths)) w')))"

fun write_jobs :: "args \<Rightarrow> string \<Rightarrow> (string \<times> mates) list \<Rightarrow> world \<Rightarrow> (error + unit) \<times> world" where
  "write_jobs a job_tmpl [] w = (Inr (), w)"
| "write_jobs a job_tmpl ((sample_name, paths) # items) w =
     (case write_job a job_tmpl sample_name paths w of
        (Inl e, w') \<Rightarrow> (Inl e, w')
      | (Inr u, w') \<Rightarrow> write_jobs a job_tmpl items w')"

text \<open>
  Lines 94 to 121: \<open>main\<close>, from the parsed arguments. An exception that nothing
  catches ends the process with exit code 1; a return from \<open>main\<close>, with 0.
\<close>

definition main :: "args \<Rightarrow> world \<Rightarrow> (error + unit) \<times> world" where
  "main a w =
     (case read_text (template a) w of
        Inl e \<Rightarrow> (Inl e, w)
      | Inr job_tmpl \<Rightarrow>
          (case get_fastq_paths (fastqs a) w of
             (all_fastq_paths, w1) \<Rightarrow>
               (case group_fastqs all_fastq_paths w1 of
                  (Inl e, w2) \<Rightarrow> (Inl e, w2)
                | (Inr fastq_paths_names, w2) \<Rightarrow> write_jobs a job_tmpl fastq_paths_names w2)))"

definition exit_code :: "(error + unit) \<times> world \<Rightarrow> nat" where
  "exit_code res = (case fst res of Inl e \<Rightarrow> 1 | Inr u \<Rightarrow> 0)"

section \<open>Example worlds\<close>

text \<open>
  A working directory \<open>/home\<close> with a template \<open>t.txt\<close>, a directory
  \<open>reads\<close> of sequencing files (and a sub-directory with a file of its own), a
  directory \<open>docs\<close> without sequencing files, and an empty directory \<open>jobs\<close>.
\<close>

definition paired_world :: world where
  "paired_world =
     \<lparr>cwd = [''/'', ''home''],
      files = [[''/'', ''home'', ''t.txt''] \<mapsto> ''align {genome} {fwd} {rev} -o {output} -r {reference}''],
      dirs = [[''/'', ''home'', ''reads''] \<mapsto>
                \<lparr>entries = [''s_S1_L001_R2_001.fastq.gz'', ''notes.txt'', ''s_S1_L001_R1_001.fastq.gz'',
                            ''old'', ''t_2.fq'', ''t_1.fq.bz2'', ''u.FASTQ''],
                 readable = True, writable = True\<rparr>,
              [''/'', ''home'', ''reads'', ''old''] \<mapsto>
                \<lparr>entries = [''deep.fastq''], readable = True, writable = True\<rparr>,
              [''/'', ''home'', ''docs''] \<mapsto>
                \<lparr>entries = [''notes.txt'', ''u.FASTQ'', ''x.fq.zip''], readable = True, writable = True\<rparr>,
              [''/'', ''home'', ''jobs''] \<mapsto> \<lparr>entries = [], readable = True, writable = True\<rparr>],
      stdout = []\<rparr>"

definition paired_args :: args where
  "paired_args =
     \<lparr>template = [''t.txt''], fastqs = [''reads''], jobs = [''jobs''],
      output' = None, reference = Some [''/'', ''ref'', ''genome.fa'']\<rparr>"


text \<open>The same layout with a single sequencing file.\<close>

definition single_world :: world where
  "single_world =
     \<lparr>cwd = [''/'', ''home''],
      files = [[''/'', ''home'', ''t.txt''] \<mapsto> ''align {genome} {fwd} {rev}''],
      dirs = [[''/'', ''home'', ''reads''] \<mapsto>
                \<lparr>entries = [''reads_1.fastq''], readable = True, writable = True\<rparr>,
              [''/'', ''home'', ''jobs''] \<mapsto> \<lparr>entries = [], readable = True, writable = True\<rparr>],
      stdout = []\<rparr>"



section \<open>Facts about paths and sorting\<close>

lemma path_name_snoc: "path_name (d @ [n]) = (if d = [] \<and> n = ''/'' then [] else n)"
  by (auto simp: path_name_def)

lemma snoc_le_snoc: "(d @ [a] \<le> d @ [b]) = (a \<le> b)" for a b :: string
  by (induction d) auto

section \<open>The two worked examples of sample-name derivation\<close>

lemma genome_name_R1:
  "genome_name (d @ [''sample_S1_L001_R1_001.fastq.gz'']) = ''sample''"
proof -
  have "stem (d @ [''sample_S1_L001_R1_001.fastq.gz'']) = ''sample_S1_L001_R1_001.fastq''"
    by (simp add: stem_def path_name_snoc)
  moreover have "fastq_sub ''sample_S1_L001_R1_001.fastq'' = ''sample_S1_L001_R1_001''"
    by (simp add: fastq_sub_def fastq_regex_def took_def)
  moreover have "illumina_sub ''sample_S1_L001_R1_001'' = ''sample''"
    by (simp add: illumina_sub_def illumina_regex_def took_def)
  ultimately show ?thesis by (simp add: genome_name_def)
qed

lemma genome_name_R2:
  "genome_name (d @ [''sample_S1_L001_R2_001.fastq.gz'']) = ''sample''"
proof -
  have "stem (d @ [''sample_S1_L001_R2_001.fastq.gz'']) = ''sample_S1_L001_R2_001.fastq''"
    by (simp add: stem_def path_name_snoc)
  moreover have "fastq_sub ''sample_S1_L001_R2_001.fastq'' = ''sample_S1_L001_R2_001''"
    by (simp add: fastq_sub_def fastq_regex_def took_def)
  moreover have "illumina_sub ''sample_S1_L001_R2_001'' = ''sample''"
    by (simp add: illumina_sub_def illumina_regex_def took_def)
  ultimately show ?thesis by (simp add: genome_name_def)
qed

text \<open>
  C1. The files \<open>sample_S1_L001_R1_001.fastq.gz\<close> and
  \<open>sample_S1_L001_R2_001.fastq.gz\<close> of any directory \<open>d\<close> both get the sample
  name \<open>sample\<close>; they form one group, in whichever order they were discovered; and
  \<open>group_fastqs\<close> returns the \<open>R1\<close> file as \<open>fwd\<close> and the \<open>R2\<close> file as
  \<open>rev\<close>.
\<close>

theorem illumina_pair_grouped:
  "genome_name (d @ [''sample_S1_L001_R1_001.fastq.gz'']) = ''sample'' \<and>
   genome_name (d @ [''sample_S1_L001_R2_001.fastq.gz'']) = ''sample'' \<and>
   genome_fastqs [d @ [''sample_S1_L001_R1_001.fastq.gz''], d @ [''sample_S1_L001_R2_001.fastq.gz'']]
     = [(''sample'', [d @ [''sample_S1_L001_R1_001.fastq.gz''], d @ [''sample_S1_L001_R2_001.fastq.gz'']])] \<and>
   genome_fastqs [d @ [''sample_S1_L001_R2_001.fastq.gz''], d @ [''sample_S1_L001_R1_001.fastq.gz'']]
     = [(''sample'', [d @ [''sample_S1_L001_R2_001.fastq.gz''], d @ [''sample_S1_L001_R1_001.fastq.gz'']])] \<and>
   fst (group_fastqs [d @ [''sample_S1_L001_R1_001.fastq.gz''], d @ [''sample_S1_L001_R2_001.fastq.gz'']] w)
     = Inr [(''sample'', \<lparr>fwd = d @ [''sample_S1_L001_R1_001.fastq.gz''],
                           rev' = d @ [''sample_S1_L001_R2_001.fastq.gz'']\<rparr>)] \<and>
   fst (group_fastqs [d @ [''sample_S1_L001_R2_001.fastq.gz''], d @ [''sample_S1_L001_R1_001.fastq.gz'']] w)
     = Inr [(''sample'', \<lparr>fwd = d @ [''sample_S1_L001_R1_001.fastq.gz''],
                           rev' = d @ [''sample_S1_L001_R2_001.fastq.gz'']\<rparr>)]"
  by (simp add: genome_name_R1 genome_name_R2 genome_fastqs_def dict_get_list_def
      group_fastqs_def fwd_rev_def snoc_le_snoc)

lemma genome_name_reads_1: "genome_name (d @ [''reads_1.fastq'']) = ''reads_1''"
proof -
  have "stem (d @ [''reads_1.fastq'']) = ''reads_1''"
    by (simp add: stem_def path_name_snoc)
  moreover have "fastq_sub ''reads_1'' = ''reads_1''"
    by (simp add: fastq_sub_def fastq_regex_def took_def)
  moreover have "illumina_sub ''reads_1'' = ''reads_1''"
    by (simp add: illumina_sub_def illumina_regex_def took_def)
  ultimately show ?thesis by (simp add: genome_name_def)
qed

lemma genome_name_reads_2: "genome_name (d @ [''reads_2.fastq'']) = ''reads_2''"
proof -
  have "stem (d @ [''reads_2.fastq'']) = ''reads_2''"
    by (simp add: stem_def path_name_snoc)
  moreover have "fastq_sub ''reads_2'' = ''reads_2''"
    by (simp add: fastq_sub_def fastq_regex_def took_def)
  moreover have "illumina_sub ''reads_2'' = ''reads_2''"
    by (simp add: illumina_sub_def illumina_regex_def took_def)
  ultimately show ?thesis by (simp add: genome_name_def)
qed

text \<open>
  C7. The files \<open>reads_1.fastq\<close> and \<open>reads_2.fastq\<close> of any directory \<open>d\<close>
  get the two different sample names \<open>reads_1\<close> and \<open>reads_2\<close>: nothing is
  stripped but the extension, and the first loop of \<open>group_fastqs\<close> puts the two files
  into two groups of one file each.
\<close>

theorem numbered_reads_not_paired:
  "genome_name (d @ [''reads_1.fastq'']) = ''reads_1'' \<and>
   genome_name (d @ [''reads_2.fastq'']) = ''reads_2'' \<and>
   genome_name (d @ [''reads_1.fastq'']) \<noteq> genome_name (d @ [''reads_2.fastq'']) \<and>
   genome_fastqs [d @ [''reads_1.fastq''], d @ [''reads_2.fastq'']]
     = [(''reads_1'', [d @ [''reads_1.fastq'']]), (''reads_2'', [d @ [''reads_2.fastq'']])]"
  by (simp add: genome_name_reads_1 genome_name_reads_2 genome_fastqs_def dict_get_list_def)

section \<open>Discovery\<close>

lemma fnmatch_literal: "CHR ''*'' \<notin> set p \<Longrightarrow> fnmatch n p = (n = p)"
  by (induction p arbitrary: n) (auto split: list.splits)

lemma fnmatch_star:
  assumes "CHR ''*'' \<notin> set p"
  shows "fnmatch n (CHR ''*'' # p) = suffix p n"
proof -
  have "fnmatch n (CHR ''*'' # p) = list_ex (\<lambda>k. drop k n = p) [0..<Suc (length n)]"
    using assms by (simp add: fnmatch_literal del: upt_Suc)
  also have "\<dots> = (\<exists>k\<le>length n. drop k n = p)"
    by (auto simp: list_ex_iff less_Suc_eq_le simp del: upt_Suc)
  also have "\<dots> = suffix p n"
  proof
    assume "\<exists>k\<le>length n. drop k n = p"
    then obtain k where "drop k n = p" by blast
    then have "n = take k n @ p" by (metis append_take_drop_id)
    then show "suffix p n" unfolding suffix_def by blast
  next
    assume "suffix p n"
    then obtain zs where "n = zs @ p" unfolding suffix_def by blast
    then have "length zs \<le> length n \<and> drop (length zs) n = p" by simp
    then show "\<exists>k\<le>length n. drop k n = p" by blast
  qed
  finally show ?thesis .
qed

lemma extensions_eq:
  "extensions = [''*.fq'', ''*.fq.gz'', ''*.fq.bz2'', ''*.fastq'', ''*.fastq.gz'', ''*.fastq.bz2'']"
  by (simp add: extensions_def)

lemma matches_extension:
  "(\<exists>ext \<in> set extensions. fnmatch n ext) =
   (\<exists>e \<in> set [''.fq'', ''.fastq'', ''.fq.gz'', ''.fastq.gz'', ''.fq.bz2'', ''.fastq.bz2'']. suffix e n)"
  by (simp add: extensions_eq fnmatch_star del: fnmatch.simps) blast

lemma fastq_paths_set:
  "set (fst (get_fastq_paths directory w)) =
     {absolute (directory @ [n]) w | n.
        n \<in> set (scandir directory w) \<and> (\<exists>ext \<in> set extensions. fnmatch n ext)}"
  by (auto simp: get_fastq_paths_def glob_def Let_def)

lemma absolute_is_absolute: "is_absolute (cwd w) \<Longrightarrow> is_absolute (absolute p w)"
  by (auto simp: absolute_def is_absolute_def split: list.splits)

text \<open>
  C4. For every directory, \<open>get_fastq_paths\<close> returns exactly the entries directly
  inside it (the names \<open>scandir\<close> lists for the directory itself, whatever lies in its
  sub-directories) whose names end with one of \<open>.fq\<close>, \<open>.fastq\<close>, \<open>.fq.gz\<close>,
  \<open>.fastq.gz\<close>, \<open>.fq.bz2\<close>, \<open>.fastq.bz2\<close> (characters compared as they are),
  each made absolute with \<open>Path.absolute\<close>, and nothing else; with an absolute working
  directory every returned path is absolute.
\<close>

theorem discovery_exact:
  "set (fst (get_fastq_paths directory w)) =
     {absolute (directory @ [n]) w | n.
        n \<in> set (scandir directory w) \<and>
        (\<exists>e \<in> set [''.fq'', ''.fastq'', ''.fq.gz'', ''.fastq.gz'', ''.fq.bz2'', ''.fastq.bz2''].
           suffix e n)} \<and>
   (is_absolute (cwd w) \<longrightarrow> list_all is_absolute (fst (get_fastq_paths directory w)))"
proof
  show "set (fst (get_fastq_paths directory w)) =
     {absolute (directory @ [n]) w | n.
        n \<in> set (scandir directory w) \<and>
        (\<exists>e \<in> set [''.fq'', ''.fastq'', ''.fq.gz'', ''.fastq.gz'', ''.fq.bz2'', ''.fastq.bz2''].
           suffix e n)}"
    by (simp only: fastq_paths_set matches_extension)
  show "is_absolute (cwd w) \<longrightarrow> list_all is_absolute (fst (get_fastq_paths directory w))"
    by (auto simp: list_all_iff fastq_paths_set absolute_is_absolute)
qed

lemma paired_scandir: "scandir [''reads''] paired_world =
      [''s_S1_L001_R2_001.fastq.gz'', ''notes.txt'', ''s_S1_L001_R1_001.fastq.gz'',
       ''old'', ''t_2.fq'', ''t_1.fq.bz2'', ''u.FASTQ'']"
    by (simp add: scandir_def paired_world_def absolute_def is_absolute_def)

lemma paired_discovery: "fst (get_fastq_paths [''reads''] paired_world) =
     [[''/'', ''home'', ''reads'', ''t_2.fq''],
      [''/'', ''home'', ''reads'', ''t_1.fq.bz2''],
      [''/'', ''home'', ''reads'', ''s_S1_L001_R2_001.fastq.gz''],
      [''/'', ''home'', ''reads'', ''s_S1_L001_R1_001.fastq.gz'']]"
  unfolding get_fastq_paths_def glob_def paired_scandir Let_def extensions_eq
  by (simp add: fnmatch_star suffix_to_prefix absolute_def is_absolute_def paired_world_def del: fnmatch.simps)

theorem discovery_exact_witness:
  "is_absolute (cwd paired_world) \<and>
   {absolute ([''reads''] @ [n]) paired_world | n.
        n \<in> set (scandir [''reads''] paired_world) \<and>
        (\<exists>e \<in> set [''.fq'', ''.fastq'', ''.fq.gz'', ''.fastq.gz'', ''.fq.bz2'', ''.fastq.bz2''].
           suffix e n)} =
     {[''/'', ''home'', ''reads'', ''s_S1_L001_R2_001.fastq.gz''],
      [''/'', ''home'', ''reads'', ''s_S1_L001_R1_001.fastq.gz''],
      [''/'', ''home'', ''reads'', ''t_2.fq''],
      [''/'', ''home'', ''reads'', ''t_1.fq.bz2'']} \<and>
   list_all is_absolute (fst (get_fastq_paths [''reads''] paired_world))"
proof -
  have abs: "is_absolute (cwd paired_world)"
    by (simp add: paired_world_def is_absolute_def)
  have "set (fst (get_fastq_paths [''reads''] paired_world)) =
     {[''/'', ''home'', ''reads'', ''s_S1_L001_R2_001.fastq.gz''],
      [''/'', ''home'', ''reads'', ''s_S1_L001_R1_001.fastq.gz''],
      [''/'', ''home'', ''reads'', ''t_2.fq''],
      [''/'', ''home'', ''reads'', ''t_1.fq.bz2'']}"
    unfolding paired_discovery by auto
  with abs discovery_exact [of "[''reads'']" paired_world] show ?thesis
    by simp
qed

section \<open>Runs that find no sequencing file\<close>

lemma str_nat_0: "str_nat 0 = ''0''" by (simp add: str_nat.simps)
lemma str_nat_1: "str_nat 1 = ''1''" by (simp add: str_nat.simps)
lemma str_nat_Suc_0: "str_nat (Suc 0) = ''1''" by (simp add: str_nat.simps)

lemma get_fastq_paths_world:
  "snd (get_fastq_paths d w) =
     print_line (''Found '' @ str_nat (length (fst (get_fastq_paths d w))) @ '' fastqs in '' @ path_str d) w"
  by (simp add: get_fastq_paths_def Let_def)

lemma no_match_no_paths:
  assumes "\<forall>n \<in> set (scandir d w).
             \<not> (\<exists>e \<in> set [''.fq'', ''.fastq'', ''.fq.gz'', ''.fastq.gz'', ''.fq.bz2'', ''.fastq.bz2'']. suffix e n)"
  shows "fst (get_fastq_paths d w) = []"
proof -
  have "set (fst (get_fastq_paths d w)) = {}"
    using assms unfolding fastq_paths_set matches_extension by blast
  then show ?thesis by simp
qed


lemma main_no_fastqs:
  assumes "read_text (template a) w = Inr job_tmpl" and "fst (get_fastq_paths (fastqs a) w) = []"
  shows "main a w =
           (Inr (), w\<lparr>stdout := stdout w @ [''Found 0 fastqs in '' @ path_str (fastqs a),
                                            ''Grouped 0 FASTQs into 0 samples'']\<rparr>)"
proof -
  obtain ps w1 where g: "get_fastq_paths (fastqs a) w = (ps, w1)" by (cases "get_fastq_paths (fastqs a) w")
  with assms(2) have ps: "ps = []" by simp
  from g get_fastq_paths_world [of "fastqs a" w] ps
  have w1: "w1 = print_line (''Found 0 fastqs in '' @ path_str (fastqs a)) w"
    by (simp add: str_nat_0)
  show ?thesis
    by (simp add: main_def assms(1) g ps w1 group_fastqs_def fwd_rev_def genome_fastqs_def
        str_nat_0 print_line_def)
qed

text \<open>
  C9. When the template can be read (line 98 comes before the scan) and no entry of the
  scanned directory has a name with one of the six extensions, \<open>main\<close> returns
  normally: it changes no file and no directory, prints the two summary lines, the second
  one reporting 0 samples, and the exit code is 0.
\<close>

theorem empty_directory_run:
  assumes "read_text (template a) w = Inr job_tmpl"
    and "\<forall>n \<in> set (scandir (fastqs a) w).
           \<not> (\<exists>e \<in> set [''.fq'', ''.fastq'', ''.fq.gz'', ''.fastq.gz'', ''.fq.bz2'', ''.fastq.bz2'']. suffix e n)"
  shows "main a w =
           (Inr (), w\<lparr>stdout := stdout w @ [''Found 0 fastqs in '' @ path_str (fastqs a),
                                            ''Grouped 0 FASTQs into 0 samples'']\<rparr>) \<and>
         files (snd (main a w)) = files w \<and> dirs (snd (main a w)) = dirs w \<and>
         exit_code (main a w) = 0"
proof -
  have "fst (get_fastq_paths (fastqs a) w) = []"
    using assms(2) by (rule no_match_no_paths)
  with assms(1) have m: "main a w =
           (Inr (), w\<lparr>stdout := stdout w @ [''Found 0 fastqs in '' @ path_str (fastqs a),
                                            ''Grouped 0 FASTQs into 0 samples'']\<rparr>)"
    by (rule main_no_fastqs)
  then show ?thesis by (simp add: exit_code_def)
qed



theorem empty_directory_run_witness:
  "read_text (template (paired_args\<lparr>fastqs := [''docs'']\<rparr>)) paired_world =
     Inr ''align {genome} {fwd} {rev} -o {output} -r {reference}'' \<and>
   scandir [''docs''] paired_world = [''notes.txt'', ''u.FASTQ'', ''x.fq.zip''] \<and>
   main (paired_args\<lparr>fastqs := [''docs'']\<rparr>) paired_world =
     (Inr (), paired_world\<lparr>stdout := [''Found 0 fastqs in docs'',
                                         ''Grouped 0 FASTQs into 0 samples'']\<rparr>) \<and>
   exit_code (main (paired_args\<lparr>fastqs := [''docs'']\<rparr>) paired_world) = 0"
proof -
  have t: "read_text (template (paired_args\<lparr>fastqs := [''docs'']\<rparr>)) paired_world =
             Inr ''align {genome} {fwd} {rev} -o {output} -r {reference}''"
    by (simp add: read_text_def paired_args_def paired_world_def absolute_def is_absolute_def)
  have s: "scandir [''docs''] paired_world = [''notes.txt'', ''u.FASTQ'', ''x.fq.zip'']"
    by (simp add: scandir_def paired_world_def absolute_def is_absolute_def)
  have n: "\<forall>n \<in> set (scandir (fastqs (paired_args\<lparr>fastqs := [''docs'']\<rparr>)) paired_world).
             \<not> (\<exists>e \<in> set [''.fq'', ''.fastq'', ''.fq.gz'', ''.fastq.gz'', ''.fq.bz2'', ''.fastq.bz2''].
                  suffix e n)"
    by (simp add: s suffix_to_prefix)
  have "stdout paired_world = []" by (simp add: paired_world_def)
  with empty_directory_run [OF t n] t s show ?thesis
    by (simp add: path_str_def exit_code_def)
qed



section \<open>Groups of a single file\<close>

lemma set_dict_set: "set (dict_set d k v) \<subseteq> insert (k, v) (set d)"
  by (induction d) (auto split: if_splits)

lemma genome_fastqs_loop_nonempty:
  "\<forall>(k, v) \<in> set d. v \<noteq> [] \<Longrightarrow> \<forall>(k, v) \<in> set (genome_fastqs_loop d fs). v \<noteq> []"
proof (induction fs arbitrary: d)
  case Nil
  then show ?case by simp
next
  case (Cons fastq fs)
  let ?d = "dict_set d (genome_name fastq) (dict_get_list d (genome_name fastq) @ [fastq])"
  have "\<forall>(k, v) \<in> set ?d. v \<noteq> []"
    using Cons.prems set_dict_set [of d "genome_name fastq" "dict_get_list d (genome_name fastq) @ [fastq]"]
    by auto
  then show ?case using Cons.IH [of ?d] by simp
qed

lemma genome_fastqs_nonempty: "(n, ps) \<in> set (genome_fastqs fs) \<Longrightarrow> ps \<noteq> []"
  using genome_fastqs_loop_nonempty [of "[]" fs] by (auto simp: genome_fastqs_def)


lemma fwd_rev_loop_short:
  assumes "(n, ps) \<in> set groups" and "length ps < 2" and "\<forall>(k, v) \<in> set groups. v \<noteq> []"
  shows "fwd_rev_loop acc groups =
           Inl (ValueError ''not enough values to unpack (expected at least 2, got 1)'')"
  using assms
proof (induction groups arbitrary: acc)
  case Nil
  then show ?case by simp
next
  case (Cons g groups)
  obtain name paths where g: "g = (name, paths)" by (cases g)
  show ?case
  proof (cases "length paths < 2")
    case True
    moreover have "paths \<noteq> []" using Cons.prems(3) g by auto
    ultimately obtain x where "paths = [x]"
      by (cases paths) (auto simp: less_Suc_eq numeral_2_eq_2)
    then show ?thesis by (simp add: g str_nat_Suc_0)
  next
    case False
    then have "length (sort paths) \<ge> 2" by simp
    then obtain f r rest where s: "sort paths = f # r # rest"
      by (cases "sort paths"; cases "tl (sort paths)") auto
    have "(n, ps) \<in> set groups" using Cons.prems(1,2) False g by auto
    then have "fwd_rev_loop (dict_set acc name \<lparr>fwd = f, rev' = r\<rparr>) groups =
           Inl (ValueError ''not enough values to unpack (expected at least 2, got 1)'')"
      using Cons.IH Cons.prems(2,3) by auto
    then show ?thesis by (simp add: g s)
  qed
qed

lemma group_fastqs_short:
  assumes "(n, ps) \<in> set (genome_fastqs fs)" and "length ps < 2"
  shows "group_fastqs fs w =
           (Inl (ValueError ''not enough values to unpack (expected at least 2, got 1)''), w)"
proof -
  have "\<forall>(k, v) \<in> set (genome_fastqs fs). v \<noteq> []"
    using genome_fastqs_nonempty by auto
  with assms have "fwd_rev (genome_fastqs fs) =
           Inl (ValueError ''not enough values to unpack (expected at least 2, got 1)'')"
    unfolding fwd_rev_def by (rule fwd_rev_loop_short)
  then show ?thesis by (simp add: group_fastqs_def)
qed


lemma main_short_group:
  assumes "(n, ps) \<in> set (genome_fastqs fs)" and "length ps < 2"
    and "read_text (template a) w0 = Inr job_tmpl"
    and "fst (get_fastq_paths (fastqs a) w0) = fs"
  shows "main a w0 =
           (Inl (ValueError ''not enough values to unpack (expected at least 2, got 1)''),
            print_line (''Found '' @ str_nat (length fs) @ '' fastqs in '' @ path_str (fastqs a)) w0)"
proof -
  obtain w1 where g: "get_fastq_paths (fastqs a) w0 = (fs, w1)"
    using assms(4) by (cases "get_fastq_paths (fastqs a) w0") auto
  have w1: "w1 = print_line (''Found '' @ str_nat (length fs) @ '' fastqs in '' @ path_str (fastqs a)) w0"
    using get_fastq_paths_world [of "fastqs a" w0] g by simp
  show ?thesis
    using assms(3) g group_fastqs_short [OF assms(1,2), of w1] by (simp add: main_def w1)
qed

text \<open>
  C3, as the code has it. A group is never empty. When some group has a single file,
  the unpacking at line 70 raises a \<open>ValueError\<close> inside \<open>group_fastqs\<close>, before
  the emission loop is reached: \<open>group_fastqs\<close> prints nothing, and a run whose template
  was read ends with that error and exit code 1, having changed no file and no directory.
  The message is the interpreter's; it names neither the sample nor its files.
\<close>

theorem single_file_group_fails:
  assumes "(n, ps) \<in> set (genome_fastqs fs)" and "length ps < 2"
  shows "group_fastqs fs w =
           (Inl (ValueError ''not enough values to unpack (expected at least 2, got 1)''), w) \<and>
         (read_text (template a) w0 = Inr job_tmpl \<and> fst (get_fastq_paths (fastqs a) w0) = fs \<longrightarrow>
            fst (main a w0) =
              Inl (ValueError ''not enough values to unpack (expected at least 2, got 1)'') \<and>
            files (snd (main a w0)) = files w0 \<and> dirs (snd (main a w0)) = dirs w0 \<and>
            exit_code (main a w0) = 1)"
proof (intro conjI impI)
  show "group_fastqs fs w =
           (Inl (ValueError ''not enough values to unpack (expected at least 2, got 1)''), w)"
    using assms by (rule group_fastqs_short)
next
  assume run: "read_text (template a) w0 = Inr job_tmpl \<and> fst (get_fastq_paths (fastqs a) w0) = fs"
  then have m: "main a w0 =
      (Inl (ValueError ''not enough values to unpack (expected at least 2, got 1)''),
       print_line (''Found '' @ str_nat (length fs) @ '' fastqs in '' @ path_str (fastqs a)) w0)"
    using main_short_group [OF assms] by blast
  show "fst (main a w0) =
          Inl (ValueError ''not enough values to unpack (expected at least 2, got 1)'')"
    by (simp add: m)
  show "files (snd (main a w0)) = files w0" by (simp add: m print_line_def)
  show "dirs (snd (main a w0)) = dirs w0" by (simp add: m print_line_def)
  show "exit_code (main a w0) = 1" by (simp add: m exit_code_def)
qed

lemma single_discovery:
  "fst (get_fastq_paths [''reads''] single_world) = [[''/'', ''home'', ''reads'', ''reads_1.fastq'']]"
  unfolding get_fastq_paths_def glob_def Let_def extensions_eq
  by (simp add: scandir_def fnmatch_star suffix_to_prefix absolute_def is_absolute_def
      single_world_def del: fnmatch.simps)

lemma single_template:
  "read_text (template paired_args) single_world = Inr ''align {genome} {fwd} {rev}''"
  by (simp add: read_text_def paired_args_def single_world_def absolute_def is_absolute_def)

lemma single_groups:
  "genome_fastqs [[''/'', ''home'', ''reads'', ''reads_1.fastq'']] =
     [(''reads_1'', [[''/'', ''home'', ''reads'', ''reads_1.fastq'']])]"
  using genome_name_reads_1 [of "[''/'', ''home'', ''reads'']"]
  by (simp add: genome_fastqs_def dict_get_list_def)

theorem single_file_group_fails_witness:
  "(''reads_1'', [[''/'', ''home'', ''reads'', ''reads_1.fastq'']])
     \<in> set (genome_fastqs [[''/'', ''home'', ''reads'', ''reads_1.fastq'']]) \<and>
   length [[''/'', ''home'', ''reads'', ''reads_1.fastq'']] < 2 \<and>
   group_fastqs [[''/'', ''home'', ''reads'', ''reads_1.fastq'']] single_world =
     (Inl (ValueError ''not enough values to unpack (expected at least 2, got 1)''), single_world) \<and>
   read_text (template paired_args) single_world = Inr ''align {genome} {fwd} {rev}'' \<and>
   fst (get_fastq_paths (fastqs paired_args) single_world) =
     [[''/'', ''home'', ''reads'', ''reads_1.fastq'']] \<and>
   fst (main paired_args single_world) =
     Inl (ValueError ''not enough values to unpack (expected at least 2, got 1)'') \<and>
   files (snd (main paired_args single_world)) = files single_world \<and>
   dirs (snd (main paired_args single_world)) = dirs single_world \<and>
   exit_code (main paired_args single_world) = 1"
proof -
  have g: "(''reads_1'', [[''/'', ''home'', ''reads'', ''reads_1.fastq'']])
             \<in> set (genome_fastqs [[''/'', ''home'', ''reads'', ''reads_1.fastq'']])"
    by (simp add: single_groups)
  have l: "length [[''/'', ''home'', ''reads'', ''reads_1.fastq'']] < 2" by simp
  have d: "fst (get_fastq_paths (fastqs paired_args) single_world) =
             [[''/'', ''home'', ''reads'', ''reads_1.fastq'']]"
    using single_discovery by (simp add: paired_args_def)
  from single_file_group_fails [OF g l, of single_world paired_args single_world
      "''align {genome} {fwd} {rev}''"] g single_template d
  show ?thesis by simp
qed

text \<open>
  The claim fails on the code for the one file \<open>reads_1.fastq\<close>: the error is a
  \<open>ValueError\<close>, it is raised by \<open>group_fastqs\<close> itself (so before emission), and its
  message does not contain the sample name \<open>reads_1\<close>.
\<close>

theorem missing_mate_counterexample:
  "fst (get_fastq_paths [''reads''] single_world) = [[''/'', ''home'', ''reads'', ''reads_1.fastq'']] \<and>
   genome_fastqs [[''/'', ''home'', ''reads'', ''reads_1.fastq'']] =
     [(''reads_1'', [[''/'', ''home'', ''reads'', ''reads_1.fastq'']])] \<and>
   fst (group_fastqs [[''/'', ''home'', ''reads'', ''reads_1.fastq'']] single_world) =
     Inl (ValueError ''not enough values to unpack (expected at least 2, got 1)'') \<and>
   fst (main paired_args single_world) =
     Inl (ValueError ''not enough values to unpack (expected at least 2, got 1)'') \<and>
   \<not> sublist ''reads_1'' ''not enough values to unpack (expected at least 2, got 1)''"
proof -
  have g: "(''reads_1'', [[''/'', ''home'', ''reads'', ''reads_1.fastq'']])
             \<in> set (genome_fastqs [[''/'', ''home'', ''reads'', ''reads_1.fastq'']])"
    by (simp add: single_groups)
  have l: "length [[''/'', ''home'', ''reads'', ''reads_1.fastq'']] < 2" by simp
  have "fst (group_fastqs [[''/'', ''home'', ''reads'', ''reads_1.fastq'']] single_world) =
     Inl (ValueError ''not enough values to unpack (expected at least 2, got 1)'')"
    using group_fastqs_short [OF g l] by simp
  moreover have "fst (main paired_args single_world) =
     Inl (ValueError ''not enough values to unpack (expected at least 2, got 1)'')"
    using main_short_group [OF g l single_template] single_discovery
    by (simp add: paired_args_def)
  moreover have "\<not> sublist ''reads_1'' ''not enough values to unpack (expected at least 2, got 1)''"
    by (simp add: sublist_Cons_right)
  ultimately show ?thesis by (simp add: single_discovery single_groups)
qed

section \<open>Facts about \<open>str.format\<close>\<close>









section \<open>Writing one job file\<close>

lemma split_sep_no_slash: "CHR ''/'' \<notin> set s \<Longrightarrow> split_sep s = [s]"
  by (induction s) auto

lemma path_join_single:
  assumes "CHR ''/'' \<notin> set n" and "n \<noteq> []" and "n \<noteq> ''.''"
  shows "path_join p n = p @ [n]"
proof -
  have "\<not> prefix ''/'' n" using assms(1) by (cases n) auto
  moreover have "split_sep n = [n]" using assms(1) by (rule split_sep_no_slash)
  ultimately show ?thesis using assms(2,3) by (simp add: path_join_def)
qed

lemma path_join_job:
  assumes "CHR ''/'' \<notin> set X"
  shows "path_join p (''slurm-'' @ X @ ''.job'') = p @ [''slurm-'' @ X @ ''.job'']"
  by (rule path_join_single) (use assms in auto)

lemma absolute_snoc: "n \<noteq> ''/'' \<Longrightarrow> absolute (p @ [n]) w = absolute p w @ [n]"
  by (cases p) (auto simp: absolute_def is_absolute_def)

lemma format_genome: "py_format ''{genome}'' (format_kwargs a X paths) = Inr X"
  by (simp add: get_field_def format_kwargs_def emit_def)

lemma write_text_new:
  assumes "n \<noteq> ''/''" and "dirs w (absolute p w) = Some d" and "writable d"
    and "files w (absolute p w) = None" and "dirs w (absolute p w @ [n]) = None"
  shows "write_text (p @ [n]) s w =
          (Inr (), w\<lparr>files := (files w)(absolute p w @ [n] \<mapsto> s),
                      dirs := (dirs w)(absolute p w \<mapsto> add_entry n d)\<rparr>)"
  using assms by (simp add: write_text_def absolute_snoc Let_def)

lemma write_job_new:
  assumes "py_format job_tmpl (format_kwargs a X paths) = Inr job"
    and "path_join (jobs a) (''slurm-'' @ X @ ''.job'') = jobs a @ [n]"
    and "n \<noteq> ''/''" and "dirs w (absolute (jobs a) w) = Some d" and "writable d"
    and "files w (absolute (jobs a) w) = None" and "dirs w (absolute (jobs a) w @ [n]) = None"
  shows "write_job a job_tmpl X paths w =
          (Inr (), print_line (''Wrote '' @ path_str (jobs a @ [n]) @ '' for sample '' @ X
                       @ '' with inputs '' @ path_str (fwd paths) @ '' '' @ path_str (rev' paths))
                     (w\<lparr>files := (files w)(absolute (jobs a) w @ [n] \<mapsto> job),
                        dirs := (dirs w)(absolute (jobs a) w \<mapsto> add_entry n d)\<rparr>))"
  unfolding write_job_def assms(1) assms(2) Let_def
  by (simp add: write_text_new [OF assms(3-7)])

lemma round_trip_n:
  assumes "path_join (jobs a) (''slurm-'' @ X @ ''.job'') = jobs a @ [n]"
    and "n \<noteq> ''/''" and "dirs w (absolute (jobs a) w) = Some d" and "writable d"
    and "files w (absolute (jobs a) w) = None" and "dirs w (absolute (jobs a) w @ [n]) = None"
  shows "fst (write_job a ''{genome}'' X paths w) = Inr () \<and>
         files (snd (write_job a ''{genome}'' X paths w)) (absolute (jobs a) w @ [n]) = Some X"
proof -
  have "write_job a ''{genome}'' X paths w =
          (Inr (), print_line (''Wrote '' @ path_str (jobs a @ [n]) @ '' for sample '' @ X
                       @ '' with inputs '' @ path_str (fwd paths) @ '' '' @ path_str (rev' paths))
                     (w\<lparr>files := (files w)(absolute (jobs a) w @ [n] \<mapsto> X),
                        dirs := (dirs w)(absolute (jobs a) w \<mapsto> add_entry n d)\<rparr>))"
    using format_genome assms by (rule write_job_new)
  then show ?thesis by (simp add: print_line_def)
qed

text \<open>
  C8. For every sample name \<open>X\<close> (a sample name has no \<open>/\<close>), when the
  job directory exists and is writable and no directory stands at the target, the loop
  body run on the template \<open>{genome}\<close> succeeds, the target is
  \<open><jobs>/slurm-X.job\<close>, and after it the file there holds exactly \<open>X\<close>.
\<close>

theorem genome_template_round_trip:
  assumes "CHR ''/'' \<notin> set X"
    and "dirs w (absolute (jobs a) w) = Some d" and "writable d"
    and "files w (absolute (jobs a) w) = None"
    and "dirs w (absolute (jobs a) w @ [''slurm-'' @ X @ ''.job'']) = None"
  shows "path_join (jobs a) (''slurm-'' @ X @ ''.job'') = jobs a @ [''slurm-'' @ X @ ''.job''] \<and>
         fst (write_job a ''{genome}'' X paths w) = Inr () \<and>
         files (snd (write_job a ''{genome}'' X paths w))
           (absolute (jobs a) w @ [''slurm-'' @ X @ ''.job'']) = Some X"
proof -
  have j: "path_join (jobs a) (''slurm-'' @ X @ ''.job'') = jobs a @ [''slurm-'' @ X @ ''.job'']"
    using assms(1) by (rule path_join_job)
  have n: "''slurm-'' @ X @ ''.job'' \<noteq> ''/''" by simp
  from round_trip_n [OF j n assms(2-5)] j show ?thesis by blast
qed

theorem genome_template_round_trip_witness:
  "CHR ''/'' \<notin> set ''s'' \<and>
   dirs paired_world (absolute (jobs paired_args) paired_world) =
     Some \<lparr>entries = [], readable = True, writable = True\<rparr> \<and>
   path_join (jobs paired_args) ''slurm-s.job'' = [''jobs'', ''slurm-s.job''] \<and>
   fst (write_job paired_args ''{genome}'' ''s''
          \<lparr>fwd = [''/'', ''home'', ''reads'', ''s_S1_L001_R1_001.fastq.gz''],
           rev' = [''/'', ''home'', ''reads'', ''s_S1_L001_R2_001.fastq.gz'']\<rparr> paired_world) = Inr () \<and>
   files (snd (write_job paired_args ''{genome}'' ''s''
          \<lparr>fwd = [''/'', ''home'', ''reads'', ''s_S1_L001_R1_001.fastq.gz''],
           rev' = [''/'', ''home'', ''reads'', ''s_S1_L001_R2_001.fastq.gz'']\<rparr> paired_world))
     [''/'', ''home'', ''jobs'', ''slurm-s.job''] = Some ''s''"
proof -
  have x: "CHR ''/'' \<notin> set ''s''" by simp
  have ab: "absolute (jobs paired_args) paired_world = [''/'', ''home'', ''jobs'']"
    by (simp add: absolute_def is_absolute_def paired_args_def paired_world_def)
  have d: "dirs paired_world (absolute (jobs paired_args) paired_world) =
             Some \<lparr>entries = [], readable = True, writable = True\<rparr>"
    unfolding ab by (simp add: paired_world_def)
  have w: "writable \<lparr>entries = [], readable = True, writable = True\<rparr>" by simp
  have f: "files paired_world (absolute (jobs paired_args) paired_world) = None"
    unfolding ab by (simp add: paired_world_def)
  have t: "dirs paired_world (absolute (jobs paired_args) paired_world @ [''slurm-'' @ ''s'' @ ''.job'']) = None"
    unfolding ab by (simp add: paired_world_def)
  have j: "jobs paired_args = [''jobs'']" by (simp add: paired_args_def)
  have ab2: "absolute [''jobs''] paired_world = [''/'', ''home'', ''jobs'']"
    using ab by (simp only: j)
  from genome_template_round_trip [OF x d w f t,
      of "\<lparr>fwd = [''/'', ''home'', ''reads'', ''s_S1_L001_R1_001.fastq.gz''],
           rev' = [''/'', ''home'', ''reads'', ''s_S1_L001_R2_001.fastq.gz'']\<rparr>"] d x
  show ?thesis by (simp add: j ab2)
qed

section \<open>Placeholders\<close>
















end
